theory Spec2Isabelle
  imports Main "HOL-Library.Word" "HOL-Library.List_Lexorder" "HOL-Library.Char_ord"
begin

section \<open>Python values and exceptions\<close>

text \<open>
  The exceptions the modelled code can raise. Every constructor stands for a subclass of
  Python's \<open>Exception\<close>, so both \<open>except Exception\<close> and a bare \<open>except:\<close> catch it.
  The string is the message, what \<open>str(e)\<close> gives. \<open>LibraryError\<close> is any exception
  raised inside a call into a third-party package.
\<close>

datatype py_error =
    KeyError string
  | IndexError string
  | ValueError string
  | ZeroDivisionError string
  | AttributeError string
  | SyntaxError string
  | LibraryError string

fun str_of_error :: "py_error \<Rightarrow> string" where
  "str_of_error (KeyError m) = m"
| "str_of_error (IndexError m) = m"
| "str_of_error (ValueError m) = m"
| "str_of_error (ZeroDivisionError m) = m"
| "str_of_error (AttributeError m) = m"
| "str_of_error (SyntaxError m) = m"
| "str_of_error (LibraryError m) = m"

section \<open>Padding and unpadding (pages/Padding and Unpadding Text.py)\<close>

type_synonym byte = "8 word"

text \<open>
  \<open>bytes(xs)\<close> for a list of integers: every element must be in \<open>range(0, 256)\<close>,
  otherwise Python raises ValueError.
\<close>

definition bytes_of_ints :: "int list \<Rightarrow> py_error + byte list" where
  "bytes_of_ints xs =
     (if \<forall>x \<in> set xs. 0 \<le> x \<and> x < 256 then Inr (map word_of_int xs)
      else Inl (ValueError ''bytes must be in range(0, 256)''))"

text \<open>\<open>[v] * k\<close>: a list of \<open>k\<close> copies, empty when \<open>k\<close> is zero or negative.\<close>

definition list_times :: "int \<Rightarrow> int \<Rightarrow> int list" where
  "list_times v k = replicate (nat k) v"

text \<open>
  The slices \<open>data[-k:]\<close> and \<open>data[:-k]\<close> for \<open>k \<ge> 0\<close>. For \<open>k = 0\<close> they are
  \<open>data[0:]\<close> (everything) and \<open>data[:0]\<close> (nothing); for \<open>k\<close> beyond the length the
  start is clipped to the beginning.
\<close>

definition slice_last :: "nat \<Rightarrow> 'a list \<Rightarrow> 'a list" where
  "slice_last k xs = (if k = 0 then xs else drop (length xs - k) xs)"

definition slice_but_last :: "nat \<Rightarrow> 'a list \<Rightarrow> 'a list" where
  "slice_but_last k xs = (if k = 0 then [] else take (length xs - k) xs)"

text \<open>
  \<^verbatim>\<open>
  def pkcs7_pad(data: bytes, block_size: int) -> bytes:
      pad_len = block_size - (len(data) % block_size)
      return data + bytes([pad_len] * pad_len)
  \<close>
  Python's \<open>%\<close> takes the sign of the divisor, as \<open>mod\<close> on \<open>int\<close> does, and raises
  ZeroDivisionError for a zero divisor.
\<close>

definition pkcs7_pad :: "byte list \<Rightarrow> int \<Rightarrow> py_error + byte list" where
  "pkcs7_pad data block_size =
     (if block_size = 0 then Inl (ZeroDivisionError ''integer modulo by zero'')
      else
        let pad_len = block_size - (int (length data) mod block_size) in
        case bytes_of_ints (list_times pad_len pad_len) of
          Inl e \<Rightarrow> Inl e
        | Inr pad \<Rightarrow> Inr (data @ pad))"

text \<open>
  \<^verbatim>\<open>
  def pkcs7_unpad(data: bytes) -> bytes:
      pad_len = data[-1]
      if pad_len < 1 or pad_len > len(data):
          raise ValueError("Invalid padding length")
      if data[-pad_len:] != bytes([pad_len] * pad_len):
          raise ValueError("Invalid PKCS7 padding bytes")
      return data[:-pad_len]
  \<close>
  \<open>data[-1]\<close> on empty bytes raises IndexError.
\<close>

definition pkcs7_unpad :: "byte list \<Rightarrow> py_error + byte list" where
  "pkcs7_unpad data =
     (if data = [] then Inl (IndexError ''index out of range'')
      else
        let pad_len = unat (last data) in
        if pad_len < 1 \<or> pad_len > length data
        then Inl (ValueError ''Invalid padding length'')
        else
          case bytes_of_ints (list_times (int pad_len) (int pad_len)) of
            Inl e \<Rightarrow> Inl e
          | Inr pad \<Rightarrow>
              if slice_last pad_len data \<noteq> pad
              then Inl (ValueError ''Invalid PKCS7 padding bytes'')
              else Inr (slice_but_last pad_len data))"

section \<open>Classical cipher page (pages/Classical Cipher.py): values\<close>

text \<open>
  The Python values a parameter can take on this page: \<open>None\<close>, booleans, unbounded
  integers, text and lists of values. Text is modelled as \<open>string\<close>.
\<close>

datatype pyval =
    PyNone
  | PyBool bool
  | PyInt int
  | PyStr string
  | PyList "pyval list"

subsection \<open>The built-in \<open>str\<close>\<close>

definition digit_char :: "nat \<Rightarrow> char" where
  "digit_char d = ''0123456789'' ! d"

fun dec_of_nat :: "nat \<Rightarrow> string" where
  "dec_of_nat n =
     (if n < 10 then [digit_char n] else dec_of_nat (n div 10) @ [digit_char (n mod 10)])"

definition dec_of_int :: "int \<Rightarrow> string" where
  "dec_of_int i = (if i < 0 then CHR ''-'' # dec_of_nat (nat (- i)) else dec_of_nat (nat i))"

fun join_with :: "string \<Rightarrow> string list \<Rightarrow> string" where
  "join_with sep [] = []"
| "join_with sep [x] = x"
| "join_with sep (x # y # ys) = x @ sep @ join_with sep (y # ys)"

text \<open>
  \<open>repr\<close> and \<open>str\<close> of a value. The \<open>repr\<close> of text is given for text without quotes,
  backslashes and control characters, where it is the text between single quotes.
\<close>

fun py_repr :: "pyval \<Rightarrow> string" where
  "py_repr PyNone = ''None''"
| "py_repr (PyBool b) = (if b then ''True'' else ''False'')"
| "py_repr (PyInt i) = dec_of_int i"
| "py_repr (PyStr s) = [CHR 0x27] @ s @ [CHR 0x27]"
| "py_repr (PyList xs) = ''['' @ join_with '', '' (map py_repr xs) @ '']''"

fun py_str :: "pyval \<Rightarrow> string" where
  "py_str (PyStr s) = s"
| "py_str v = py_repr v"

subsection \<open>A model of \<open>ast.literal_eval\<close>\<close>

text \<open>
  Modelled from the spec: \<open>ast.literal_eval\<close> belongs to Python's standard library, not to
  this repository; the specification describes it as "structured-literal interpretation"
  with \<open>"13"\<close> read as the integer 13 and \<open>"[5, 4, 7, 9]"\<close> as a list of integers.
  \<open>parse_param\<close> below takes the interpreter as a parameter; this definition is a concrete
  one for the fragment of literals built from decimal integers with an optional sign,
  \<open>None\<close>, \<open>True\<close>, \<open>False\<close> and bracketed lists, with spaces and tabs between tokens.
  On every other input it raises. (The library also reads floats, quoted text, tuples,
  dictionaries, sets and other numeral forms, which the fragment leaves out, and it raises
  SyntaxError or ValueError depending on the input, which the model does not distinguish.)
\<close>

datatype token = TInt nat | TName string | TLBrack | TRBrack | TComma | TMinus | TPlus

datatype partial = PNone | PNum string | PName string

definition is_digit :: "char \<Rightarrow> bool" where
  "is_digit c = (let n = (of_char c :: nat) in 48 \<le> n \<and> n \<le> 57)"

definition is_name_char :: "char \<Rightarrow> bool" where
  "is_name_char c =
     (let n = (of_char c :: nat) in (65 \<le> n \<and> n \<le> 90) \<or> (97 \<le> n \<and> n \<le> 122) \<or> n = 95)"

definition nat_of_digits :: "string \<Rightarrow> nat" where
  "nat_of_digits ds = foldl (\<lambda>a c. 10 * a + (of_char c - 48)) 0 ds"

text \<open>A decimal integer literal is a non-zero digit followed by digits, or zeros only.\<close>

definition flush :: "partial \<Rightarrow> token list option" where
  "flush p =
     (case p of
        PNone \<Rightarrow> Some []
      | PNum ds \<Rightarrow>
          (if hd ds \<noteq> CHR ''0'' \<or> (\<forall>d \<in> set ds. d = CHR ''0'')
           then Some [TInt (nat_of_digits ds)] else None)
      | PName n \<Rightarrow> Some [TName n])"

definition punct :: "char \<Rightarrow> token list option" where
  "punct c =
     (if c = CHR '' '' \<or> c = CHR 0x09 then Some []
      else if c = CHR ''['' then Some [TLBrack]
      else if c = CHR '']'' then Some [TRBrack]
      else if c = CHR '','' then Some [TComma]
      else if c = CHR ''-'' then Some [TMinus]
      else if c = CHR ''+'' then Some [TPlus]
      else None)"

fun lex :: "string \<Rightarrow> partial \<Rightarrow> token list option" where
  "lex [] p = flush p"
| "lex (c # cs) p =
     (if is_digit c then
        (case p of
           PNone \<Rightarrow> lex cs (PNum [c])
         | PNum ds \<Rightarrow> lex cs (PNum (ds @ [c]))
         | PName n \<Rightarrow> lex cs (PName (n @ [c])))
      else if is_name_char c then
        (case p of
           PNone \<Rightarrow> lex cs (PName [c])
         | PNum ds \<Rightarrow> None
         | PName n \<Rightarrow> lex cs (PName (n @ [c])))
      else
        (case flush p of
           None \<Rightarrow> None
         | Some pre \<Rightarrow>
             (case punct c of
                None \<Rightarrow> None
              | Some t \<Rightarrow>
                  (case lex cs PNone of
                     None \<Rightarrow> None
                   | Some ts \<Rightarrow> Some (pre @ t @ ts)))))"

definition name_value :: "string \<Rightarrow> pyval option" where
  "name_value n =
     (if n = ''None'' then Some PyNone
      else if n = ''True'' then Some (PyBool True)
      else if n = ''False'' then Some (PyBool False)
      else None)"

text \<open>
  The parser keeps a stack of open lists: for each, the items read so far (latest first)
  and whether a separator is due. \<open>fin\<close> is the finished top-level value, if any.
\<close>

type_synonym frames = "(pyval list \<times> bool) list"

fun put_value :: "pyval \<Rightarrow> frames \<Rightarrow> pyval option \<Rightarrow> (frames \<times> pyval option) option" where
  "put_value v [] None = Some ([], Some v)"
| "put_value v [] (Some w) = None"
| "put_value v ((items, wantsep) # st) fin =
     (if wantsep then None else Some ((v # items, True) # st, fin))"

fun parse_tokens :: "token list \<Rightarrow> frames \<Rightarrow> pyval option \<Rightarrow> pyval option" where
  "parse_tokens [] st fin = (if st = [] then fin else None)"
| "parse_tokens (TMinus # TInt n # ts) st fin =
     (case put_value (PyInt (- int n)) st fin of
        None \<Rightarrow> None
      | Some (st', fin') \<Rightarrow> parse_tokens ts st' fin')"
| "parse_tokens (TPlus # TInt n # ts) st fin =
     (case put_value (PyInt (int n)) st fin of
        None \<Rightarrow> None
      | Some (st', fin') \<Rightarrow> parse_tokens ts st' fin')"
| "parse_tokens (TMinus # ts) st fin = None"
| "parse_tokens (TPlus # ts) st fin = None"
| "parse_tokens (TInt n # ts) st fin =
     (case put_value (PyInt (int n)) st fin of
        None \<Rightarrow> None
      | Some (st', fin') \<Rightarrow> parse_tokens ts st' fin')"
| "parse_tokens (TName s # ts) st fin =
     (case name_value s of
        None \<Rightarrow> None
      | Some v \<Rightarrow>
          (case put_value v st fin of
             None \<Rightarrow> None
           | Some (st', fin') \<Rightarrow> parse_tokens ts st' fin'))"
| "parse_tokens (TLBrack # ts) st fin = parse_tokens ts (([], False) # st) fin"
| "parse_tokens (TRBrack # ts) st fin =
     (case st of
        [] \<Rightarrow> None
      | (items, wantsep) # st' \<Rightarrow>
          (case put_value (PyList (rev items)) st' fin of
             None \<Rightarrow> None
           | Some (st'', fin') \<Rightarrow> parse_tokens ts st'' fin'))"
| "parse_tokens (TComma # ts) st fin =
     (case st of
        [] \<Rightarrow> None
      | (items, wantsep) # st' \<Rightarrow>
          (if wantsep then parse_tokens ts ((items, False) # st') fin else None))"

text \<open>
  Modelled from the spec: the interpreter itself, \<open>ast.literal_eval(node_or_string)\<close> of
  the standard library, on the fragment described above. A value that is not text is
  rejected with ValueError.
\<close>

definition literal_eval :: "pyval \<Rightarrow> py_error + pyval" where
  "literal_eval node_or_string =
     (case node_or_string of
        PyStr s \<Rightarrow>
          (case lex s PNone of
             None \<Rightarrow> Inl (SyntaxError ''invalid syntax'')
           | Some ts \<Rightarrow>
               (case parse_tokens ts [] None of
                  None \<Rightarrow> Inl (SyntaxError ''invalid syntax'')
                | Some v \<Rightarrow> Inr v))
      | _ \<Rightarrow> Inl (ValueError ''malformed node or string''))"

section \<open>Classical cipher page: the catalog and parameter parsing\<close>

text \<open>
  \<open>cipher_params\<close>, the dictionary of the page, entry by entry and in the order of the
  source (a dictionary keeps insertion order).
\<close>

definition cipher_params :: "(string \<times> (string \<times> pyval) list) list" where
  "cipher_params =
     [(''Atbash'', []),
      (''SimpleSubstitution'', [(''key'', PyStr ''AJPCZWRLFBDKOTYUQGENHXMIVS'')]),
      (''Caesar'', [(''key'', PyInt 13)]),
      (''Affine'', [(''a'', PyInt 5), (''b'', PyInt 9)]),
      (''Autokey'', [(''key'', PyStr ''FORTIFICATION'')]),
      (''Beaufort'', [(''key'', PyStr ''FORTIFICATION'')]),
      (''Bifid'', [(''key'', PyStr ''phqgmeaylnofdxkrcvszwbuti''), (''period'', PyInt 5)]),
      (''ColTrans'', [(''keyword'', PyStr ''GERMAN'')]),
      (''Gronsfeld'', [(''key'', PyStr ''[5, 4, 7, 9]'')]),
      (''Foursquare'', [(''key1'', PyStr ''zgptfoihmuwdrcnykeqaxvsbl''),
                        (''key2'', PyStr ''mfnbdcrhsaxyogvituewlqzkp'')]),
      (''PolybiusSquare'', [(''key'', PyStr ''phqgiumeaylnofdxkrcvstzwb''), (''size'', PyInt 5)]),
      (''Playfair'', [(''key'', PyStr ''ABCDEFGHIKLMNOPQRSTUVWXYZ'')]),
      (''Vigenere'', [(''key'', PyStr ''fortification'')]),
      (''Rot13'', []),
      (''Railfence'', [(''key'', PyInt 5)])]"

text \<open>
  \<^verbatim>\<open>
  def parse_param(val):
      if val in ["None", None, ""]:
          return None
      try:
          return ast.literal_eval(val)
      except:
          return val
  \<close>
  \<open>le\<close> is the interpreter of literals the function calls. The bare \<open>except:\<close> catches
  whatever it raises.
\<close>

definition parse_param :: "(pyval \<Rightarrow> py_error + pyval) \<Rightarrow> pyval \<Rightarrow> py_error + pyval" where
  "parse_param le val =
     (if val \<in> set [PyStr ''None'', PyNone, PyStr ''''] then Inr PyNone
      else
        (case le val of
           Inr v \<Rightarrow> Inr v
         | Inl e \<Rightarrow> Inr val))"

section \<open>Classical cipher page: the parameter form\<close>

text \<open>
  The page reads its widgets from Streamlit. The widget state is a parameter of the model:
  \<open>checkbox\<close> gives the state of the checkbox with a given widget key, \<open>text_input\<close>
  the text of the field with a given key and default value, \<open>text_area\<close> likewise,
  \<open>selectbox\<close> the chosen option and \<open>button\<close> whether the button was pressed in this
  run. Calls that only draw (\<open>st.markdown\<close>, \<open>st.info\<close>, \<open>st.subheader\<close>) are left out.
\<close>

record ui =
  checkbox :: "string \<Rightarrow> bool"
  text_input :: "string \<Rightarrow> string \<Rightarrow> string"
  text_area :: "string \<Rightarrow> string \<Rightarrow> string"
  selectbox :: "string \<Rightarrow> string list \<Rightarrow> string"
  button :: "string \<Rightarrow> bool"

text \<open>The widget keys \<open>f"{section_prefix}_chk_{cipher_name}_{p}"\<close> and \<open>..._inp_...\<close>.\<close>

definition chk_key :: "string \<Rightarrow> string \<Rightarrow> string \<Rightarrow> string" where
  "chk_key section_prefix cipher_name p = section_prefix @ ''_chk_'' @ cipher_name @ ''_'' @ p"

definition inp_key :: "string \<Rightarrow> string \<Rightarrow> string \<Rightarrow> string" where
  "inp_key section_prefix cipher_name p = section_prefix @ ''_inp_'' @ cipher_name @ ''_'' @ p"

text \<open>
  The body of the loop \<open>for p, default_val in params.items()\<close> of \<open>build_param_ui\<close>,
  with \<open>user_inputs\<close> as the accumulator. A parameter whose checkbox is off is skipped:
  nothing is stored under its name.
\<close>

fun param_loop ::
  "(pyval \<Rightarrow> py_error + pyval) \<Rightarrow> ui \<Rightarrow> string \<Rightarrow> string \<Rightarrow> (string \<times> pyval) list
     \<Rightarrow> (string \<rightharpoonup> pyval) \<Rightarrow> py_error + (string \<rightharpoonup> pyval)" where
  "param_loop le u cipher_name section_prefix [] user_inputs = Inr user_inputs"
| "param_loop le u cipher_name section_prefix ((p, default_val) # rest) user_inputs =
     (case parse_param le default_val of
        Inl e \<Rightarrow> Inl e
      | Inr parsed_default \<Rightarrow>
          (let use_param = checkbox u (chk_key section_prefix cipher_name p) in
           if use_param then
             (let default_str = (if parsed_default \<noteq> PyNone then py_str parsed_default else '''');
                  user_input = text_input u (inp_key section_prefix cipher_name p) default_str
              in case parse_param le (PyStr user_input) of
                   Inl e \<Rightarrow> Inl e
                 | Inr v \<Rightarrow> param_loop le u cipher_name section_prefix rest (user_inputs(p \<mapsto> v)))
           else param_loop le u cipher_name section_prefix rest user_inputs))"

text \<open>
  \<^verbatim>\<open>
  def build_param_ui(cipher_name, section_prefix):
      params = cipher_params[cipher_name]
      user_inputs = {}
      if params:
          for p, default_val in params.items():
              parsed_default = parse_param(default_val)
              use_param = st.checkbox(f"Use '{p}'?", value=True, key=...)
              if use_param:
                  default_str = str(parsed_default) if parsed_default is not None else ""
                  user_input = st.text_input(f"{p}", value=default_str, key=...)
                  user_inputs[p] = parse_param(user_input)
      return user_inputs
  \<close>
  \<open>cipher_params[cipher_name]\<close> raises KeyError for a name that is not in the catalog.
\<close>

definition build_param_ui ::
  "(pyval \<Rightarrow> py_error + pyval) \<Rightarrow> ui \<Rightarrow> string \<Rightarrow> string \<Rightarrow> py_error + (string \<rightharpoonup> pyval)" where
  "build_param_ui le u cipher_name section_prefix =
     (case map_of cipher_params cipher_name of
        None \<Rightarrow> Inl (KeyError cipher_name)
      | Some params \<Rightarrow> param_loop le u cipher_name section_prefix params Map.empty)"

section \<open>Classical cipher page: instantiation and dispatch\<close>

text \<open>
  The package \<open>pycipher\<close> is a parameter of the model: \<open>getattr_cls\<close> is
  \<open>getattr(pycipher, name)\<close>, \<open>init_parameters\<close> the names in
  \<open>inspect.signature(cls.__init__).parameters\<close>, \<open>construct\<close> the call \<open>cls(**kwargs)\<close>,
  \<open>truthy\<close> the truth value of an instance, \<open>encipher\<close> and \<open>decipher\<close> its two
  methods. Each may raise.
\<close>

record ('c, 'i) pycipher =
  getattr_cls :: "string \<Rightarrow> py_error + 'c"
  init_parameters :: "'c \<Rightarrow> py_error + string list"
  construct :: "'c \<Rightarrow> (string \<rightharpoonup> pyval) \<Rightarrow> py_error + 'i"
  truthy :: "'i \<Rightarrow> bool"
  encipher :: "'i \<Rightarrow> string \<Rightarrow> py_error + string"
  decipher :: "'i \<Rightarrow> string \<Rightarrow> py_error + string"

text \<open>What the page shows: \<open>st.error(msg)\<close> and \<open>st.success(msg)\<close>.\<close>

datatype ui_msg = StError string | StSuccess string

text \<open>The \<open>try\<close> block of \<open>safe_cipher_instance\<close>.\<close>

definition try_cipher_instance ::
  "('c, 'i) pycipher \<Rightarrow> string \<Rightarrow> (string \<rightharpoonup> pyval) \<Rightarrow> py_error + 'i" where
  "try_cipher_instance P cipher_name user_inputs =
     (case getattr_cls P cipher_name of
        Inl e \<Rightarrow> Inl e
      | Inr cipher_class \<Rightarrow>
          (case init_parameters P cipher_class of
             Inl e \<Rightarrow> Inl e
           | Inr accepted_params \<Rightarrow>
               (let valid_inputs = user_inputs |` set accepted_params
                in construct P cipher_class valid_inputs)))"

text \<open>
  \<^verbatim>\<open>
  def safe_cipher_instance(cipher_name, user_inputs):
      try:
          cipher_class = getattr(pycipher, cipher_name)
          accepted_params = inspect.signature(cipher_class.__init__).parameters
          valid_inputs = {k: v for k, v in user_inputs.items() if k in accepted_params}
          return cipher_class(**valid_inputs)
      except Exception as e:
          st.error(f"Error creating cipher instance: {e}")
          return None
  \<close>
  The result is the messages shown and the value returned (\<open>None\<close> for Python's
  \<open>None\<close>); \<open>Inl\<close> would be an exception leaving the function.
\<close>

definition safe_cipher_instance ::
  "('c, 'i) pycipher \<Rightarrow> string \<Rightarrow> (string \<rightharpoonup> pyval) \<Rightarrow> py_error + (ui_msg list \<times> 'i option)" where
  "safe_cipher_instance P cipher_name user_inputs =
     (case try_cipher_instance P cipher_name user_inputs of
        Inr obj \<Rightarrow> Inr ([], Some obj)
      | Inl e \<Rightarrow> Inr ([StError (''Error creating cipher instance: '' @ str_of_error e)], None))"

text \<open>\<open>str.strip()\<close>: the ASCII characters for which \<open>isspace\<close> holds are removed at both ends.\<close>

definition is_space :: "char \<Rightarrow> bool" where
  "is_space c = (let n = (of_char c :: nat) in (9 \<le> n \<and> n \<le> 13) \<or> (28 \<le> n \<and> n \<le> 32))"

definition strip :: "string \<Rightarrow> string" where
  "strip s = rev (dropWhile is_space (rev (dropWhile is_space s)))"

text \<open>
  The body of \<open>if st.button("Encipher", key="enc_btn"):\<close> in \<open>main\<close>:
  \<^verbatim>\<open>
  cipher_obj = safe_cipher_instance(enc_cipher, enc_inputs)
  if cipher_obj:
      try:
          result = cipher_obj.encipher(enc_text.strip())
          st.success(f"... Result:\n{result}")
      except Exception as e:
          st.error(f"Encipher Failed: {e}")
  \<close>
  The success message is modelled by the result text alone.
\<close>

definition encipher_clicked ::
  "('c, 'i) pycipher \<Rightarrow> string \<Rightarrow> (string \<rightharpoonup> pyval) \<Rightarrow> string \<Rightarrow> py_error + ui_msg list" where
  "encipher_clicked P enc_cipher enc_inputs enc_text =
     (case safe_cipher_instance P enc_cipher enc_inputs of
        Inl e \<Rightarrow> Inl e
      | Inr (shown, None) \<Rightarrow> Inr shown
      | Inr (shown, Some cipher_obj) \<Rightarrow>
          (if truthy P cipher_obj then
             (case encipher P cipher_obj (strip enc_text) of
                Inr result \<Rightarrow> Inr (shown @ [StSuccess result])
              | Inl e \<Rightarrow> Inr (shown @ [StError (''Encipher Failed: '' @ str_of_error e)]))
           else Inr shown))"

text \<open>The body of \<open>if st.button("Decipher", key="dec_btn"):\<close>, the same with \<open>decipher\<close>.\<close>

definition decipher_clicked ::
  "('c, 'i) pycipher \<Rightarrow> string \<Rightarrow> (string \<rightharpoonup> pyval) \<Rightarrow> string \<Rightarrow> py_error + ui_msg list" where
  "decipher_clicked P dec_cipher dec_inputs dec_text =
     (case safe_cipher_instance P dec_cipher dec_inputs of
        Inl e \<Rightarrow> Inl e
      | Inr (shown, None) \<Rightarrow> Inr shown
      | Inr (shown, Some cipher_obj) \<Rightarrow>
          (if truthy P cipher_obj then
             (case decipher P cipher_obj (strip dec_text) of
                Inr result \<Rightarrow> Inr (shown @ [StSuccess result])
              | Inl e \<Rightarrow> Inr (shown @ [StError (''Decipher Failed: '' @ str_of_error e)]))
           else Inr shown))"

text \<open>
  \<open>main\<close>: both forms are built on every run, then each pressed button runs its body.
  The options of both select boxes are \<open>sorted(cipher_params.keys())\<close>.
\<close>

definition main ::
  "(pyval \<Rightarrow> py_error + pyval) \<Rightarrow> ui \<Rightarrow> ('c, 'i) pycipher \<Rightarrow> py_error + ui_msg list" where
  "main le u P =
     (let enc_text = text_area u ''enc_text'' ''HELLO'';
          enc_cipher = selectbox u ''enc_cipher'' (sort (map fst cipher_params))
      in case build_param_ui le u enc_cipher ''enc'' of
           Inl e \<Rightarrow> Inl e
         | Inr enc_inputs \<Rightarrow>
             (let dec_text = text_area u ''dec_text'' '''';
                  dec_cipher = selectbox u ''dec_cipher'' (sort (map fst cipher_params))
              in case build_param_ui le u dec_cipher ''dec'' of
                   Inl e \<Rightarrow> Inl e
                 | Inr dec_inputs \<Rightarrow>
                     (case (if button u ''enc_btn''
                            then encipher_clicked P enc_cipher enc_inputs enc_text
                            else Inr []) of
                        Inl e \<Rightarrow> Inl e
                      | Inr shown1 \<Rightarrow>
                          (case (if button u ''dec_btn''
                                 then decipher_clicked P dec_cipher dec_inputs dec_text
                                 else Inr []) of
                             Inl e \<Rightarrow> Inl e
                           | Inr shown2 \<Rightarrow> Inr (shown1 @ shown2)))))"

section \<open>A model of three classes of the cipher package\<close>

text \<open>
  Modelled from the spec: the package \<open>pycipher\<close> is a third-party dependency and none of
  its code is in this repository. The specification says that construction fails when a
  parameter has an incompatible type or when "an affine multiplier [is] not coprime with the
  alphabet size", that Atbash takes no parameters and enciphers \<open>HELLO\<close> to \<open>SVOOL\<close>;
  the notes the page itself prints say: Atbash, "No parameters. A simple substitution cipher
  reversing the alphabet"; Rot13, "No parameters. Fixed Caesar cipher with shift 13"; Affine,
  "\<open>a\<close>: Multiplier in the affine formula (must be coprime to 26, default 5), \<open>b\<close>: Additive
  shift in the affine formula (default 9)". The parameter names are those of the page's
  catalog and notes. The model covers these three classes only; every other name is
  answered with AttributeError, which is right for names the package does not have and
  leaves its other classes, those of the rest of the catalog among them, out. Text is upper-cased and characters outside the 26 letters
  are removed before a transform.
\<close>

datatype cipher_class = AtbashClass | Rot13Class | AffineClass

datatype cipher_instance = Atbash | Rot13 | Affine int int

text \<open>
  Modelled from the spec: \<open>getattr(pycipher, name)\<close> for the three classes of the model.
  The message of the AttributeError is Python's for a module without that attribute.
\<close>

definition model_getattr :: "string \<Rightarrow> py_error + cipher_class" where
  "model_getattr name =
     (if name = ''Atbash'' then Inr AtbashClass
      else if name = ''Rot13'' then Inr Rot13Class
      else if name = ''Affine'' then Inr AffineClass
      else Inl (AttributeError
                  (''module '' @ [CHR 0x27] @ ''pycipher'' @ [CHR 0x27] @ '' has no attribute ''
                     @ [CHR 0x27] @ name @ [CHR 0x27])))"

text \<open>
  Modelled from the spec: the parameter names of each class's \<open>__init__\<close>, \<open>self\<close>
  included, as \<open>inspect.signature\<close> lists them for a function taken from the class.
\<close>

fun model_init_parameters :: "cipher_class \<Rightarrow> py_error + string list" where
  "model_init_parameters AtbashClass = Inr [''self'']"
| "model_init_parameters Rot13Class = Inr [''self'']"
| "model_init_parameters AffineClass = Inr [''self'', ''a'', ''b'']"

definition kwarg :: "(string \<rightharpoonup> pyval) \<Rightarrow> string \<Rightarrow> pyval \<Rightarrow> pyval" where
  "kwarg kwargs name default_val = (case kwargs name of None \<Rightarrow> default_val | Some v \<Rightarrow> v)"

text \<open>
  Modelled from the spec: the body of each \<open>__init__\<close>. Affine takes \<open>a\<close> (default 5) and
  \<open>b\<close> (default 9) and fails unless both are integers and \<open>a\<close> is coprime to 26. The
  specification gives the condition, not the wording of the error, which is the model's.
\<close>

fun model_init :: "cipher_class \<Rightarrow> (string \<rightharpoonup> pyval) \<Rightarrow> py_error + cipher_instance" where
  "model_init AtbashClass kwargs = Inr Atbash"
| "model_init Rot13Class kwargs = Inr Rot13"
| "model_init AffineClass kwargs =
     (case (kwarg kwargs ''a'' (PyInt 5), kwarg kwargs ''b'' (PyInt 9)) of
        (PyInt a, PyInt b) \<Rightarrow>
          (if gcd a 26 = 1 then Inr (Affine a b)
           else Inl (LibraryError (''invalid key: a='' @ dec_of_int a
                                     @ '', no inverse exists (mod 26)'')))
      | _ \<Rightarrow> Inl (LibraryError ''unsupported parameter type''))"

text \<open>
  Modelled from the spec: the call \<open>cls(**kwargs)\<close>. The instance is passed as \<open>self\<close>,
  so a keyword of that name is a second value for it and Python raises TypeError. Other
  keywords outside the signature, which Python refuses as well, are not represented:
  \<open>safe_cipher_instance\<close> passes on keywords of the signature only.
\<close>

definition model_construct ::
  "cipher_class \<Rightarrow> (string \<rightharpoonup> pyval) \<Rightarrow> py_error + cipher_instance" where
  "model_construct cls kwargs =
     (if kwargs ''self'' \<noteq> None
      then Inl (LibraryError
                  (''__init__() got multiple values for argument '' @ [CHR 0x27] @ ''self''
                     @ [CHR 0x27]))
      else model_init cls kwargs)"

text \<open>
  Modelled from the spec: the transforms. Letters are numbered from 0; Atbash reverses the
  alphabet, Rot13 shifts by 13, Affine maps \<open>x\<close> to \<open>a * x + b\<close> modulo 26 and back with
  the inverse of \<open>a\<close> modulo 26.
\<close>

definition to_upper :: "char \<Rightarrow> char" where
  "to_upper c = (let n = (of_char c :: nat) in if 97 \<le> n \<and> n \<le> 122 then char_of (n - 32) else c)"

definition is_upper_letter :: "char \<Rightarrow> bool" where
  "is_upper_letter c = (let n = (of_char c :: nat) in 65 \<le> n \<and> n \<le> 90)"

definition letters_only :: "string \<Rightarrow> string" where
  "letters_only s = filter is_upper_letter (map to_upper s)"

definition a2i :: "char \<Rightarrow> int" where
  "a2i c = int (of_char c) - 65"

definition i2a :: "int \<Rightarrow> char" where
  "i2a i = ''ABCDEFGHIJKLMNOPQRSTUVWXYZ'' ! nat (i mod 26)"

definition inverse_mod26 :: "int \<Rightarrow> int" where
  "inverse_mod26 a = (case find (\<lambda>i. (a * i) mod 26 = 1) [1 .. 25] of None \<Rightarrow> 0 | Some i \<Rightarrow> i)"

fun model_encipher :: "cipher_instance \<Rightarrow> string \<Rightarrow> py_error + string" where
  "model_encipher Atbash s = Inr (map (\<lambda>c. i2a (25 - a2i c)) (letters_only s))"
| "model_encipher Rot13 s = Inr (map (\<lambda>c. i2a (a2i c + 13)) (letters_only s))"
| "model_encipher (Affine a b) s = Inr (map (\<lambda>c. i2a (a * a2i c + b)) (letters_only s))"

fun model_decipher :: "cipher_instance \<Rightarrow> string \<Rightarrow> py_error + string" where
  "model_decipher Atbash s = Inr (map (\<lambda>c. i2a (25 - a2i c)) (letters_only s))"
| "model_decipher Rot13 s = Inr (map (\<lambda>c. i2a (a2i c - 13)) (letters_only s))"
| "model_decipher (Affine a b) s =
     Inr (map (\<lambda>c. i2a (inverse_mod26 a * (a2i c - b))) (letters_only s))"

text \<open>Modelled from the spec: the package as a whole, with instances that are always true.\<close>

definition pycipher_model :: "(cipher_class, cipher_instance) pycipher" where
  "pycipher_model =
     \<lparr> getattr_cls = model_getattr,
       init_parameters = model_init_parameters,
       construct = model_construct,
       truthy = (\<lambda>obj. True),
       encipher = model_encipher,
       decipher = model_decipher \<rparr>"

text \<open>A form nobody has touched: every checkbox on, every field at its default value.\<close>

definition untouched :: ui where
  "untouched =
     \<lparr> checkbox = (\<lambda>k. True),
       text_input = (\<lambda>k default_str. default_str),
       text_area = (\<lambda>k default_str. default_str),
       selectbox = (\<lambda>k options. hd options),
       button = (\<lambda>k. False) \<rparr>"

text \<open>The same form with every checkbox off except that of Affine's \<open>a\<close> in the Encipher column.\<close>

definition only_a :: ui where
  "only_a = untouched \<lparr> checkbox := (\<lambda>k. k = ''enc_chk_Affine_a'') \<rparr>"

text \<open>The untouched form with \<open>2\<close> typed into the field of Affine's \<open>a\<close> in the Encipher column.\<close>

definition multiplier_two :: ui where
  "multiplier_two =
     untouched \<lparr> text_input :=
       (\<lambda>k default_str. if k = ''enc_inp_Affine_a'' then ''2'' else default_str) \<rparr>"

section \<open>Parameter parsing never raises\<close>

lemmas literal_defs =
  literal_eval_def is_digit_def is_name_char_def flush_def punct_def nat_of_digits_def
  name_value_def

lemma parse_param_returns: "\<exists>v. parse_param le val = Inr v"
  by (cases "le val") (simp_all add: parse_param_def)

lemma literal_eval_13: "literal_eval (PyStr ''13'') = Inr (PyInt 13)"
  by (simp add: literal_defs)

lemma literal_eval_list:
  "literal_eval (PyStr ''[5, 4, 7, 9]'') = Inr (PyList [PyInt 5, PyInt 4, PyInt 7, PyInt 9])"
  by (simp add: literal_defs)

lemma literal_eval_bad:
  "literal_eval (PyStr ''not a literal {{{'') = Inl (SyntaxError ''invalid syntax'')"
  by (simp add: literal_defs)

lemma literal_eval_word:
  "literal_eval (PyStr ''FORTIFICATION'') = Inl (SyntaxError ''invalid syntax'')"
  by (simp add: literal_defs)

text \<open>
  Claim C1. \<open>parse_param\<close> returns a value on every input, whatever the interpreter of
  literals does (first conjunct, for every \<open>le\<close> and \<open>val\<close>); the empty text, the text
  \<open>None\<close> and Python's \<open>None\<close> give \<open>None\<close>; with the literal interpreter of the model,
  \<open>13\<close> gives the integer 13, \<open>[5, 4, 7, 9]\<close> the list of these four integers and
  \<open>not a literal {{{\<close> is returned as it is; and for every interpreter, a text on which
  it raises is returned unchanged as text (the two null texts apart, which never reach it).
\<close>

theorem parse_param_total:
  "(\<exists>v. parse_param le val = Inr v)
   \<and> parse_param le (PyStr '''') = Inr PyNone
   \<and> parse_param le (PyStr ''None'') = Inr PyNone
   \<and> parse_param le PyNone = Inr PyNone
   \<and> parse_param literal_eval (PyStr ''13'') = Inr (PyInt 13)
   \<and> parse_param literal_eval (PyStr ''[5, 4, 7, 9]'')
       = Inr (PyList [PyInt 5, PyInt 4, PyInt 7, PyInt 9])
   \<and> parse_param literal_eval (PyStr ''not a literal {{{'') = Inr (PyStr ''not a literal {{{'')
   \<and> (le (PyStr s) = Inl e \<longrightarrow> s \<noteq> '''' \<longrightarrow> s \<noteq> ''None''
        \<longrightarrow> parse_param le (PyStr s) = Inr (PyStr s))"
proof -
  have a: "\<exists>v. parse_param le val = Inr v" by (rule parse_param_returns)
  have b: "parse_param le (PyStr '''') = Inr PyNone"
    "parse_param le (PyStr ''None'') = Inr PyNone" "parse_param le PyNone = Inr PyNone"
    by (simp_all add: parse_param_def)
  have c: "parse_param literal_eval (PyStr ''13'') = Inr (PyInt 13)"
    by (simp add: parse_param_def literal_eval_13)
  have d: "parse_param literal_eval (PyStr ''[5, 4, 7, 9]'')
       = Inr (PyList [PyInt 5, PyInt 4, PyInt 7, PyInt 9])"
    by (simp add: parse_param_def literal_eval_list)
  have f: "parse_param literal_eval (PyStr ''not a literal {{{'')
       = Inr (PyStr ''not a literal {{{'')"
    by (simp add: parse_param_def literal_eval_bad)
  have g: "le (PyStr s) = Inl e \<longrightarrow> s \<noteq> '''' \<longrightarrow> s \<noteq> ''None''
        \<longrightarrow> parse_param le (PyStr s) = Inr (PyStr s)"
    by (simp add: parse_param_def)
  from a b c d f g show ?thesis by blast
qed

text \<open>The fallback at a default of the catalog: the keyword \<open>FORTIFICATION\<close> stays text.\<close>

theorem parse_param_total_witness:
  "literal_eval (PyStr ''FORTIFICATION'') = Inl (SyntaxError ''invalid syntax'')
   \<and> ''FORTIFICATION'' \<noteq> '''' \<and> ''FORTIFICATION'' \<noteq> ''None''
   \<and> parse_param literal_eval (PyStr ''FORTIFICATION'') = Inr (PyStr ''FORTIFICATION'')"
proof -
  have h: "literal_eval (PyStr ''FORTIFICATION'') = Inl (SyntaxError ''invalid syntax'')"
    by (rule literal_eval_word)
  have n: "''FORTIFICATION'' \<noteq> ''''" "''FORTIFICATION'' \<noteq> ''None''" by simp_all
  from parse_param_total
         [of literal_eval PyNone "''FORTIFICATION''" "SyntaxError ''invalid syntax''"]
  have "literal_eval (PyStr ''FORTIFICATION'') = Inl (SyntaxError ''invalid syntax'')
        \<longrightarrow> ''FORTIFICATION'' \<noteq> '''' \<longrightarrow> ''FORTIFICATION'' \<noteq> ''None''
        \<longrightarrow> parse_param literal_eval (PyStr ''FORTIFICATION'') = Inr (PyStr ''FORTIFICATION'')"
    by blast
  with h n show ?thesis by blast
qed

section \<open>The catalog of default parameters\<close>

lemma gronsfeld_default_is_read_as_list:
  "build_param_ui literal_eval untouched ''Gronsfeld'' section_prefix
     = Inr [''key'' \<mapsto> PyList [PyInt 5, PyInt 4, PyInt 7, PyInt 9]]"
proof -
  have s: "py_str (PyList [PyInt 5, PyInt 4, PyInt 7, PyInt 9]) = ''[5, 4, 7, 9]''"
    by (simp add: dec_of_int_def digit_char_def)
  have p: "parse_param literal_eval (PyStr ''[5, 4, 7, 9]'')
             = Inr (PyList [PyInt 5, PyInt 4, PyInt 7, PyInt 9])"
    by (simp add: parse_param_def literal_eval_list)
  show ?thesis
    unfolding build_param_ui_def
    by (simp add: cipher_params_def p s untouched_def del: py_str.simps)
qed

text \<open>
  Claim C5, as amended. The catalog maps Caesar to \<open>{key: 13}\<close>, Affine to
  \<open>{a: 5, b: 9}\<close>, Atbash to the empty parameter set and Gronsfeld to
  \<open>{key: "[5, 4, 7, 9]"}\<close>, where the default is the text of the list (the form reads it
  as the list \<open>[5, 4, 7, 9]\<close>, see \<open>gronsfeld_default_is_read_as_list\<close>).
\<close>

theorem catalog_entries:
  "map_of cipher_params ''Caesar'' = Some [(''key'', PyInt 13)]
   \<and> map_of cipher_params ''Affine'' = Some [(''a'', PyInt 5), (''b'', PyInt 9)]
   \<and> map_of cipher_params ''Atbash'' = Some []
   \<and> map_of cipher_params ''Gronsfeld'' = Some [(''key'', PyStr ''[5, 4, 7, 9]'')]"
  by (simp add: cipher_params_def)

text \<open>
  The claim as stated, with the names \<open>shift\<close>, \<open>multiplier\<close> and \<open>additive\<close> and a list
  as Gronsfeld's default, does not hold of the catalog.
\<close>

theorem catalog_names_counterexample:
  "\<not> (map_of cipher_params ''Caesar'' = Some [(''shift'', PyInt 13)]
      \<and> map_of cipher_params ''Affine'' = Some [(''multiplier'', PyInt 5), (''additive'', PyInt 9)]
      \<and> map_of cipher_params ''Atbash'' = Some []
      \<and> map_of cipher_params ''Gronsfeld''
          = Some [(''key'', PyList [PyInt 5, PyInt 4, PyInt 7, PyInt 9])])"
  by (simp add: cipher_params_def)

section \<open>Disabled parameters are left out\<close>

lemma param_loop_dom:
  "\<exists>m. param_loop le u cipher_name section_prefix params acc = Inr m
       \<and> dom m = dom acc
           \<union> {p \<in> fst ` set params. checkbox u (chk_key section_prefix cipher_name p)}"
proof (induction params arbitrary: acc)
  case Nil
  show ?case by simp
next
  case (Cons pd rest)
  obtain p default_val where pd: "pd = (p, default_val)" by (cases pd)
  obtain parsed where d: "parse_param le default_val = Inr parsed"
    using parse_param_returns by blast
  show ?case
  proof (cases "checkbox u (chk_key section_prefix cipher_name p)")
    case True
    let ?txt = "text_input u (inp_key section_prefix cipher_name p)
                  (if parsed \<noteq> PyNone then py_str parsed else '''')"
    obtain v where v: "parse_param le (PyStr ?txt) = Inr v"
      using parse_param_returns by blast
    from Cons.IH [of "acc(p \<mapsto> v)"] obtain m where
      m: "param_loop le u cipher_name section_prefix rest (acc(p \<mapsto> v)) = Inr m"
         "dom m = dom (acc(p \<mapsto> v))
            \<union> {q \<in> fst ` set rest. checkbox u (chk_key section_prefix cipher_name q)}"
      by blast
    have "param_loop le u cipher_name section_prefix (pd # rest) acc = Inr m"
      using True d v m(1) by (simp add: pd Let_def)
    moreover have "dom m = dom acc
        \<union> {q \<in> fst ` set (pd # rest). checkbox u (chk_key section_prefix cipher_name q)}"
      using True m(2) by (auto simp: pd)
    ultimately show ?thesis by blast
  next
    case False
    from Cons.IH [of acc] obtain m where
      m: "param_loop le u cipher_name section_prefix rest acc = Inr m"
         "dom m = dom acc
            \<union> {q \<in> fst ` set rest. checkbox u (chk_key section_prefix cipher_name q)}"
      by blast
    have "param_loop le u cipher_name section_prefix (pd # rest) acc = Inr m"
      using False d m(1) by (simp add: pd Let_def)
    moreover have "dom m = dom acc
        \<union> {q \<in> fst ` set (pd # rest). checkbox u (chk_key section_prefix cipher_name q)}"
      using False m(2) by (auto simp: pd)
    ultimately show ?thesis by blast
  qed
qed

lemma main_hands_form_to_instantiation:
  assumes "build_param_ui le u (selectbox u ''enc_cipher'' (sort (map fst cipher_params))) ''enc''
             = Inr enc_inputs"
    and "build_param_ui le u (selectbox u ''dec_cipher'' (sort (map fst cipher_params))) ''dec''
             = Inr dec_inputs"
    and "button u ''enc_btn''" and "\<not> button u ''dec_btn''"
  shows "main le u P
           = encipher_clicked P (selectbox u ''enc_cipher'' (sort (map fst cipher_params)))
               enc_inputs (text_area u ''enc_text'' ''HELLO'')"
proof -
  let ?r = "encipher_clicked P (selectbox u ''enc_cipher'' (sort (map fst cipher_params)))
               enc_inputs (text_area u ''enc_text'' ''HELLO'')"
  show ?thesis
  proof (cases ?r)
    case (Inl e)
    with assms show ?thesis by (simp add: main_def Let_def)
  next
    case (Inr shown)
    with assms show ?thesis by (simp add: main_def Let_def)
  qed
qed

text \<open>
  Claim C7. For every cipher of the catalog, every state of the form and every interpreter
  of literals, \<open>build_param_ui\<close> returns a mapping whose keys are exactly the catalog's
  parameters of that cipher whose checkbox is on; a parameter whose checkbox is off has no
  entry at all (in the model \<open>m p = None\<close> is absence; a key present with Python's
  \<open>None\<close> would be \<open>Some PyNone\<close>). That mapping is what \<open>main\<close> hands to
  \<open>safe_cipher_instance\<close>.
\<close>

theorem disabled_parameters_omitted:
  assumes "map_of cipher_params cipher_name = Some params"
  shows "\<exists>m. build_param_ui le u cipher_name section_prefix = Inr m
           \<and> dom m = {p \<in> fst ` set params. checkbox u (chk_key section_prefix cipher_name p)}
           \<and> (\<forall>p. \<not> checkbox u (chk_key section_prefix cipher_name p) \<longrightarrow> m p = None)"
proof -
  from param_loop_dom [of le u cipher_name section_prefix params Map.empty]
  obtain m where m: "param_loop le u cipher_name section_prefix params Map.empty = Inr m"
    "dom m = {p \<in> fst ` set params. checkbox u (chk_key section_prefix cipher_name p)}"
    by auto
  have "build_param_ui le u cipher_name section_prefix = Inr m"
    using assms m(1) by (simp add: build_param_ui_def)
  moreover have "\<forall>p. \<not> checkbox u (chk_key section_prefix cipher_name p) \<longrightarrow> m p = None"
    using m(2) by (auto simp: dom_def)
  ultimately show ?thesis using m(2) by blast
qed

text \<open>The Affine form with the checkbox of \<open>b\<close> off: only \<open>a\<close> is passed on.\<close>

theorem disabled_parameters_omitted_witness:
  "map_of cipher_params ''Affine'' = Some [(''a'', PyInt 5), (''b'', PyInt 9)]
   \<and> (\<exists>m. build_param_ui literal_eval only_a ''Affine'' ''enc'' = Inr m
          \<and> dom m = {''a''} \<and> m ''b'' = None)"
proof -
  have c: "map_of cipher_params ''Affine'' = Some [(''a'', PyInt 5), (''b'', PyInt 9)]"
    by (simp add: cipher_params_def)
  have e: "{p \<in> fst ` set [(''a'', PyInt 5), (''b'', PyInt 9)].
             checkbox only_a (chk_key ''enc'' ''Affine'' p)} = {''a''}"
    by (auto simp: only_a_def untouched_def chk_key_def)
  have n: "\<not> checkbox only_a (chk_key ''enc'' ''Affine'' ''b'')"
    by (simp add: only_a_def untouched_def chk_key_def)
  from disabled_parameters_omitted [OF c, of literal_eval only_a "''enc''"] e n
  show ?thesis using c by auto
qed

section \<open>Instantiation\<close>

lemma restrict_extra_key:
  assumes "k \<notin> A"
  shows "(m(k \<mapsto> v)) |` A = (m(k := None)) |` A"
  using assms by (auto simp: restrict_map_def fun_eq_iff)

lemma try_cipher_instance_transforms:
  "try_cipher_instance (P\<lparr>encipher := enc\<rparr>) n i = try_cipher_instance P n i"
  "try_cipher_instance (P\<lparr>decipher := dec\<rparr>) n i = try_cipher_instance P n i"
  by (simp_all add: try_cipher_instance_def split: sum.splits)

lemmas model_defs =
  pycipher_model_def model_getattr_def model_construct_def kwarg_def try_cipher_instance_def
  safe_cipher_instance_def

lemmas text_defs =
  strip_def is_space_def letters_only_def to_upper_def is_upper_letter_def a2i_def i2a_def

text \<open>
  Claim C3. For every cipher package, every cipher name and every parameter mapping: a key
  that is not among the names of the class's construction signature (for an unknown name
  there is no class and the condition is empty) makes no difference. Instantiating with the
  key present gives the same result as instantiating with the key absent: the same
  instance or the same reported error; and so do enciphering and deciphering afterwards.
\<close>

theorem unrecognized_key_dropped:
  assumes "\<forall>cls ps. getattr_cls P cipher_name = Inr cls \<longrightarrow> init_parameters P cls = Inr ps
             \<longrightarrow> k \<notin> set ps"
  shows "safe_cipher_instance P cipher_name (user_inputs(k \<mapsto> v))
           = safe_cipher_instance P cipher_name (user_inputs(k := None))
         \<and> encipher_clicked P cipher_name (user_inputs(k \<mapsto> v)) text
           = encipher_clicked P cipher_name (user_inputs(k := None)) text
         \<and> decipher_clicked P cipher_name (user_inputs(k \<mapsto> v)) text
           = decipher_clicked P cipher_name (user_inputs(k := None)) text"
proof -
  have t: "try_cipher_instance P cipher_name (user_inputs(k \<mapsto> v))
           = try_cipher_instance P cipher_name (user_inputs(k := None))"
  proof (cases "getattr_cls P cipher_name")
    case (Inl e)
    then show ?thesis by (simp add: try_cipher_instance_def)
  next
    case (Inr cls)
    note cls = this
    show ?thesis
    proof (cases "init_parameters P cls")
      case (Inl e)
      with cls show ?thesis by (simp add: try_cipher_instance_def)
    next
      case (Inr ps)
      have "k \<notin> set ps" using assms cls Inr by blast
      then have "(user_inputs(k \<mapsto> v)) |` set ps = (user_inputs(k := None)) |` set ps"
        by (rule restrict_extra_key)
      with cls Inr show ?thesis
        by (simp add: try_cipher_instance_def)
    qed
  qed
  then have s: "safe_cipher_instance P cipher_name (user_inputs(k \<mapsto> v))
           = safe_cipher_instance P cipher_name (user_inputs(k := None))"
    by (simp add: safe_cipher_instance_def)
  then show ?thesis by (simp add: encipher_clicked_def decipher_clicked_def)
qed

text \<open>The key \<open>shift\<close> given to Affine beside \<open>a = 7\<close>: it is dropped, \<open>b\<close> takes its default.\<close>

theorem unrecognized_key_dropped_witness:
  "init_parameters pycipher_model AffineClass = Inr [''self'', ''a'', ''b'']
   \<and> safe_cipher_instance pycipher_model ''Affine'' [''a'' \<mapsto> PyInt 7, ''shift'' \<mapsto> PyInt 3]
       = Inr ([], Some (Affine 7 9))
   \<and> safe_cipher_instance pycipher_model ''Affine'' [''a'' \<mapsto> PyInt 7]
       = Inr ([], Some (Affine 7 9))"
proof -
  have h: "\<forall>cls ps. getattr_cls pycipher_model ''Affine'' = Inr cls
       \<longrightarrow> init_parameters pycipher_model cls = Inr ps \<longrightarrow> ''shift'' \<notin> set ps"
    by (auto simp: pycipher_model_def model_getattr_def)
  have g: "gcd (7::int) 26 = 1" by (simp add: gcd_non_0_int)
  have a: "safe_cipher_instance pycipher_model ''Affine'' ([''a'' \<mapsto> PyInt 7](''shift'' := None))
       = Inr ([], Some (Affine 7 9))"
    by (simp add: model_defs g)
  have e: "[''a'' \<mapsto> PyInt 7](''shift'' := None) = [''a'' \<mapsto> PyInt 7]"
    by (simp add: fun_eq_iff)
  have i: "init_parameters pycipher_model AffineClass = Inr [''self'', ''a'', ''b'']"
    by (simp add: pycipher_model_def)
  from unrecognized_key_dropped [OF h, of "[''a'' \<mapsto> PyInt 7]" "PyInt 3"] a
  have "safe_cipher_instance pycipher_model ''Affine'' [''a'' \<mapsto> PyInt 7, ''shift'' \<mapsto> PyInt 3]
       = Inr ([], Some (Affine 7 9))"
    by simp
  with a e i show ?thesis by simp
qed



section \<open>The Affine multiplier\<close>

lemma affine_construct_fails:
  assumes "gcd a 26 \<noteq> 1"
  shows "\<exists>msg. try_cipher_instance pycipher_model ''Affine'' [''a'' \<mapsto> PyInt a, ''b'' \<mapsto> PyInt b]
           = Inl (LibraryError msg)"
  using assms by (simp add: model_defs)

lemma affine_not_constructed:
  assumes "gcd a 26 \<noteq> 1"
  shows "\<exists>msg. safe_cipher_instance pycipher_model ''Affine'' [''a'' \<mapsto> PyInt a, ''b'' \<mapsto> PyInt b]
               = Inr ([StError (''Error creating cipher instance: '' @ msg)], None)
           \<and> encipher_clicked (pycipher_model\<lparr>encipher := enc\<rparr>) ''Affine''
                [''a'' \<mapsto> PyInt a, ''b'' \<mapsto> PyInt b] text
               = Inr [StError (''Error creating cipher instance: '' @ msg)]
           \<and> decipher_clicked (pycipher_model\<lparr>decipher := dec\<rparr>) ''Affine''
                [''a'' \<mapsto> PyInt a, ''b'' \<mapsto> PyInt b] text
               = Inr [StError (''Error creating cipher instance: '' @ msg)]"
proof -
  from affine_construct_fails [OF assms, of b] obtain msg where
    t: "try_cipher_instance pycipher_model ''Affine'' [''a'' \<mapsto> PyInt a, ''b'' \<mapsto> PyInt b]
          = Inl (LibraryError msg)"
    by blast
  have s: "safe_cipher_instance pycipher_model ''Affine'' [''a'' \<mapsto> PyInt a, ''b'' \<mapsto> PyInt b]
             = Inr ([StError (''Error creating cipher instance: '' @ msg)], None)"
    by (simp add: safe_cipher_instance_def t)
  have e: "encipher_clicked (pycipher_model\<lparr>encipher := enc\<rparr>) ''Affine''
             [''a'' \<mapsto> PyInt a, ''b'' \<mapsto> PyInt b] text
           = Inr [StError (''Error creating cipher instance: '' @ msg)]"
    by (simp add: encipher_clicked_def safe_cipher_instance_def
                  try_cipher_instance_transforms t)
  have d: "decipher_clicked (pycipher_model\<lparr>decipher := dec\<rparr>) ''Affine''
             [''a'' \<mapsto> PyInt a, ''b'' \<mapsto> PyInt b] text
           = Inr [StError (''Error creating cipher instance: '' @ msg)]"
    by (simp add: decipher_clicked_def safe_cipher_instance_def
                  try_cipher_instance_transforms t)
  from s e d show ?thesis by blast
qed

text \<open>
  The form can produce the parameters of the claim: with \<open>2\<close> typed into the field of
  Affine's \<open>a\<close> and the rest untouched, \<open>build_param_ui\<close> returns \<open>{a: 2, b: 9}\<close>.
\<close>

lemma affine_form_with_multiplier_two:
  "build_param_ui literal_eval multiplier_two ''Affine'' ''enc''
     = Inr [''a'' \<mapsto> PyInt 2, ''b'' \<mapsto> PyInt 9]"
proof -
  have two: "parse_param literal_eval (PyStr ''2'') = Inr (PyInt 2)"
    by (simp add: parse_param_def literal_defs)
  have nine: "parse_param literal_eval (PyStr ''9'') = Inr (PyInt 9)"
    by (simp add: parse_param_def literal_defs)
  have s: "py_str (PyInt 9) = ''9''" "py_str (PyInt 5) = ''5''"
    by (simp_all add: dec_of_int_def digit_char_def)
  have i: "parse_param literal_eval (PyInt 5) = Inr (PyInt 5)"
          "parse_param literal_eval (PyInt 9) = Inr (PyInt 9)"
    by (simp_all add: parse_param_def literal_eval_def)
  show ?thesis
    unfolding build_param_ui_def
    by (simp add: cipher_params_def two nine s i multiplier_two_def untouched_def
                  inp_key_def del: py_str.simps)
qed

text \<open>
  Claim C4. The multiplier and the additive shift of the claim are the parameters the
  catalog and the page's notes call \<open>a\<close> and \<open>b\<close>. Instantiating Affine with a
  multiplier that is not coprime to 26 returns \<open>None\<close> after one construction error, and
  the button bodies show that error and nothing else whatever the transforms \<open>enc\<close> and
  \<open>dec\<close> would do, so the transform is not reached; this is so for \<open>{a: 2, b: 9}\<close>,
  where \<open>gcd 2 26 = 2\<close>; with the multiplier 5 instantiation returns an instance.
\<close>

theorem affine_multiplier_checked:
  "(gcd a 26 \<noteq> 1 \<longrightarrow>
      (\<exists>msg. safe_cipher_instance pycipher_model ''Affine'' [''a'' \<mapsto> PyInt a, ''b'' \<mapsto> PyInt b]
               = Inr ([StError (''Error creating cipher instance: '' @ msg)], None)
           \<and> encipher_clicked (pycipher_model\<lparr>encipher := enc\<rparr>) ''Affine''
                [''a'' \<mapsto> PyInt a, ''b'' \<mapsto> PyInt b] text
               = Inr [StError (''Error creating cipher instance: '' @ msg)]
           \<and> decipher_clicked (pycipher_model\<lparr>decipher := dec\<rparr>) ''Affine''
                [''a'' \<mapsto> PyInt a, ''b'' \<mapsto> PyInt b] text
               = Inr [StError (''Error creating cipher instance: '' @ msg)]))
   \<and> gcd (2::int) 26 = 2
   \<and> (\<exists>msg. safe_cipher_instance pycipher_model ''Affine'' [''a'' \<mapsto> PyInt 2, ''b'' \<mapsto> PyInt 9]
               = Inr ([StError (''Error creating cipher instance: '' @ msg)], None)
           \<and> encipher_clicked (pycipher_model\<lparr>encipher := enc\<rparr>) ''Affine''
                [''a'' \<mapsto> PyInt 2, ''b'' \<mapsto> PyInt 9] text
               = Inr [StError (''Error creating cipher instance: '' @ msg)]
           \<and> decipher_clicked (pycipher_model\<lparr>decipher := dec\<rparr>) ''Affine''
                [''a'' \<mapsto> PyInt 2, ''b'' \<mapsto> PyInt 9] text
               = Inr [StError (''Error creating cipher instance: '' @ msg)])
   \<and> safe_cipher_instance pycipher_model ''Affine'' [''a'' \<mapsto> PyInt 5, ''b'' \<mapsto> PyInt b]
       = Inr ([], Some (Affine 5 b))"
proof -
  have g: "gcd a 26 \<noteq> 1 \<longrightarrow>
      (\<exists>msg. safe_cipher_instance pycipher_model ''Affine'' [''a'' \<mapsto> PyInt a, ''b'' \<mapsto> PyInt b]
               = Inr ([StError (''Error creating cipher instance: '' @ msg)], None)
           \<and> encipher_clicked (pycipher_model\<lparr>encipher := enc\<rparr>) ''Affine''
                [''a'' \<mapsto> PyInt a, ''b'' \<mapsto> PyInt b] text
               = Inr [StError (''Error creating cipher instance: '' @ msg)]
           \<and> decipher_clicked (pycipher_model\<lparr>decipher := dec\<rparr>) ''Affine''
                [''a'' \<mapsto> PyInt a, ''b'' \<mapsto> PyInt b] text
               = Inr [StError (''Error creating cipher instance: '' @ msg)])"
    using affine_not_constructed [of a b enc "text" dec] by blast
  have two: "gcd (2::int) 26 = 2" by simp
  then have two': "gcd (2::int) 26 \<noteq> 1" by simp
  have t: "\<exists>msg. safe_cipher_instance pycipher_model ''Affine'' [''a'' \<mapsto> PyInt 2, ''b'' \<mapsto> PyInt 9]
               = Inr ([StError (''Error creating cipher instance: '' @ msg)], None)
           \<and> encipher_clicked (pycipher_model\<lparr>encipher := enc\<rparr>) ''Affine''
                [''a'' \<mapsto> PyInt 2, ''b'' \<mapsto> PyInt 9] text
               = Inr [StError (''Error creating cipher instance: '' @ msg)]
           \<and> decipher_clicked (pycipher_model\<lparr>decipher := dec\<rparr>) ''Affine''
                [''a'' \<mapsto> PyInt 2, ''b'' \<mapsto> PyInt 9] text
               = Inr [StError (''Error creating cipher instance: '' @ msg)]"
    by (rule affine_not_constructed [OF two'])
  have five: "gcd (5::int) 26 = 1" by (simp add: gcd_non_0_int)
  have f: "safe_cipher_instance pycipher_model ''Affine'' [''a'' \<mapsto> PyInt 5, ''b'' \<mapsto> PyInt b]
       = Inr ([], Some (Affine 5 b))"
    by (simp add: model_defs five)
  from g two t f show ?thesis by blast
qed

text \<open>The multiplier 13, which shares the factor 13 with 26, with a transform that would
  reverse the text.\<close>

theorem affine_multiplier_checked_witness:
  "gcd (13::int) 26 = 13
   \<and> (\<exists>msg. safe_cipher_instance pycipher_model ''Affine'' [''a'' \<mapsto> PyInt 13, ''b'' \<mapsto> PyInt 9]
              = Inr ([StError (''Error creating cipher instance: '' @ msg)], None)
          \<and> encipher_clicked (pycipher_model\<lparr>encipher := (\<lambda>obj s. Inr (rev s))\<rparr>) ''Affine''
               [''a'' \<mapsto> PyInt 13, ''b'' \<mapsto> PyInt 9] ''HELLO''
              = Inr [StError (''Error creating cipher instance: '' @ msg)])"
proof -
  have h: "gcd (13::int) 26 = 13" by simp
  then have n: "gcd (13::int) 26 \<noteq> 1" by simp
  from affine_multiplier_checked [of 13 9 "\<lambda>obj s. Inr (rev s)" "''HELLO''"] n h
  show ?thesis by blast
qed

section \<open>Ciphers without parameters\<close>

lemma no_parameters_names:
  assumes "map_of cipher_params cipher_name = Some []"
  shows "cipher_name = ''Atbash'' \<or> cipher_name = ''Rot13''"
  using assms by (simp add: cipher_params_def split: if_splits)

text \<open>
  Claim C6. For every cipher whose catalog entry declares no parameters, the form yields
  the empty parameter set and instantiation with the empty parameter set returns an
  instance and shows no error; Atbash with the empty set enciphers \<open>HELLO\<close> to \<open>SVOOL\<close>.
\<close>

theorem no_parameters_instantiate:
  "(map_of cipher_params cipher_name = Some [] \<longrightarrow>
      build_param_ui le u cipher_name section_prefix = Inr Map.empty
      \<and> (\<exists>obj. safe_cipher_instance pycipher_model cipher_name Map.empty = Inr ([], Some obj)))
   \<and> encipher_clicked pycipher_model ''Atbash'' Map.empty ''HELLO'' = Inr [StSuccess ''SVOOL'']"
proof -
  have a: "map_of cipher_params cipher_name = Some [] \<longrightarrow>
      build_param_ui le u cipher_name section_prefix = Inr Map.empty
      \<and> (\<exists>obj. safe_cipher_instance pycipher_model cipher_name Map.empty = Inr ([], Some obj))"
  proof
    assume e: "map_of cipher_params cipher_name = Some []"
    then have b: "build_param_ui le u cipher_name section_prefix = Inr Map.empty"
      by (simp add: build_param_ui_def)
    from no_parameters_names [OF e]
    have "\<exists>obj. safe_cipher_instance pycipher_model cipher_name Map.empty = Inr ([], Some obj)"
      by (auto simp: model_defs)
    with b show "build_param_ui le u cipher_name section_prefix = Inr Map.empty
      \<and> (\<exists>obj. safe_cipher_instance pycipher_model cipher_name Map.empty = Inr ([], Some obj))"
      by blast
  qed
  have s: "encipher_clicked pycipher_model ''Atbash'' Map.empty ''HELLO''
             = Inr [StSuccess ''SVOOL'']"
    by (simp add: encipher_clicked_def model_defs text_defs)
  from a s show ?thesis by blast
qed

text \<open>Rot13, the other cipher of the catalog without parameters.\<close>

theorem no_parameters_instantiate_witness:
  "map_of cipher_params ''Rot13'' = Some []
   \<and> build_param_ui literal_eval untouched ''Rot13'' ''enc'' = Inr Map.empty
   \<and> safe_cipher_instance pycipher_model ''Rot13'' Map.empty = Inr ([], Some Rot13)"
proof -
  have h: "map_of cipher_params ''Rot13'' = Some []" by (simp add: cipher_params_def)
  have r: "safe_cipher_instance pycipher_model ''Rot13'' Map.empty = Inr ([], Some Rot13)"
    by (simp add: model_defs)
  from no_parameters_instantiate [of "''Rot13''" literal_eval untouched "''enc''"] h r
  show ?thesis by blast
qed

section \<open>PKCS7 padding round-trips\<close>

lemma pad_len_bounds:
  assumes "1 \<le> n"
  shows "1 \<le> n - (int l mod n)" "n - (int l mod n) \<le> n"
proof -
  have "int l mod n < n" "0 \<le> int l mod n" using assms by simp_all
  then show "1 \<le> n - (int l mod n)" "n - (int l mod n) \<le> n" by linarith+
qed

lemma bytes_of_ints_replicate:
  assumes "0 \<le> v" "v < 256"
  shows "bytes_of_ints (list_times v k) = Inr (replicate (nat k) (word_of_int v))"
  using assms by (simp add: bytes_of_ints_def list_times_def)

lemma unat_byte_of_int:
  assumes "0 \<le> v" "v < 256"
  shows "unat (word_of_int v :: byte) = nat v"
  using assms by (simp add: unsigned_of_int take_bit_int_eq_self)

lemma pkcs7_pad_eq:
  assumes "1 \<le> n" "n \<le> 255"
  shows "pkcs7_pad data n =
         Inr (data @ replicate (nat (n - int (length data) mod n))
                        (word_of_int (n - int (length data) mod n)))"
proof -
  let ?p = "n - int (length data) mod n"
  have "1 \<le> ?p" "?p \<le> n" using pad_len_bounds [OF assms(1)] by simp_all
  then have "0 \<le> ?p" "?p < 256" using assms by linarith+
  then show ?thesis using assms
    by (simp add: pkcs7_pad_def Let_def bytes_of_ints_replicate)
qed

lemma pkcs7_unpad_append:
  assumes "1 \<le> k" "k < 256"
  shows "pkcs7_unpad (data @ replicate (nat k) (word_of_int k)) = Inr data"
proof -
  let ?b = "word_of_int k :: byte"
  let ?p = "data @ replicate (nat k) ?b"
  have u: "unat ?b = nat k" using assms by (simp add: unat_byte_of_int)
  have ne: "?p \<noteq> []" using assms by simp
  have l: "last ?p = ?b" using assms by simp
  have len: "length ?p = length data + nat k" by simp
  have ik: "int (nat k) = k" using assms by simp
  have b: "bytes_of_ints (list_times k k) = Inr (replicate (nat k) ?b)"
    using assms by (simp add: bytes_of_ints_replicate)
  have s1: "slice_last (nat k) ?p = replicate (nat k) ?b"
    using assms by (simp add: slice_last_def)
  have s2: "slice_but_last (nat k) ?p = data"
    using assms by (simp add: slice_but_last_def)
  show ?thesis
    unfolding pkcs7_unpad_def Let_def l u ik b
    using ne s1 s2 assms len by simp
qed

text \<open>
  The bound 255 is needed: the form offers block sizes up to 256, and at 256 a text whose
  length is a multiple of 256 would need 256 bytes of value 256.
\<close>

lemma pkcs7_pad_block_256:
  "pkcs7_pad [] 256 = Inl (ValueError ''bytes must be in range(0, 256)'')"
  by (simp add: pkcs7_pad_def bytes_of_ints_def list_times_def)

text \<open>
  Claim C9. For every byte string \<open>data\<close> and every block size \<open>n\<close> with
  \<open>1 \<le> n \<le> 255\<close>, \<open>pkcs7_pad\<close> returns (it does not raise), \<open>pkcs7_unpad\<close> of the
  result returns \<open>data\<close>, and the padded length is a positive multiple of \<open>n\<close>
  strictly greater than the length of \<open>data\<close>.
\<close>

theorem pkcs7_roundtrip:
  assumes "1 \<le> n" "n \<le> 255"
  shows "\<exists>p. pkcs7_pad data n = Inr p \<and> pkcs7_unpad p = Inr data
           \<and> length data < length p \<and> 0 < length p \<and> n dvd int (length p)"
proof -
  let ?k = "n - int (length data) mod n"
  let ?p = "data @ replicate (nat ?k) (word_of_int ?k :: byte)"
  have k: "1 \<le> ?k" "?k \<le> n" using pad_len_bounds [OF assms(1)] by simp_all
  have p: "pkcs7_pad data n = Inr ?p" by (rule pkcs7_pad_eq [OF assms])
  have u: "pkcs7_unpad ?p = Inr data"
    using k assms by (intro pkcs7_unpad_append) linarith+
  have len: "int (length ?p) = int (length data) + ?k" using k by simp
  have "int (length ?p) = int (length data) - int (length data) mod n + n"
    using len by simp
  also have "\<dots> = n * (int (length data) div n) + n"
    by (simp add: minus_mod_eq_mult_div)
  finally have d: "n dvd int (length ?p)" by simp
  have g: "length data < length ?p" using k by simp
  from p u d g show ?thesis by auto
qed

theorem pkcs7_roundtrip_witness:
  "(1::int) \<le> 8 \<and> (8::int) \<le> 255 \<and>
   (\<exists>p. pkcs7_pad [72, 101, 108, 108, 111] 8 = Inr p
        \<and> pkcs7_unpad p = Inr [72, 101, 108, 108, 111]
        \<and> length [72, 101, 108, 108, 111 :: byte] < length p \<and> 0 < length p
        \<and> 8 dvd int (length p))"
  using pkcs7_roundtrip [of 8 "[72, 101, 108, 108, 111]"] by simp

end
